theory Spec2Isabelle
  imports Main "HOL-Library.Finite_Map"
begin

section \<open>Endpoint resolution and connection establishment (package nsm, nse\_manager.go)\<close>

text \<open>
  The file \<^verbatim>\<open>controlplane/pkg/nsm/nse_manager.go\<close> holds five operations of the
  type \<^verbatim>\<open>nseManager\<close>: \<^verbatim>\<open>GetEndpoint\<close>, \<^verbatim>\<open>CreateNSEClient\<close>,
  \<^verbatim>\<open>IsLocalEndpoint\<close>, \<^verbatim>\<open>CheckUpdateNSE\<close>, \<^verbatim>\<open>cleanupNSE\<close>, and two list
  scans, \<^verbatim>\<open>filterEndpoints\<close> and \<^verbatim>\<open>getTargetEndpoint\<close>. They are embedded below
  in that order of dependency. Pointers that the source compares with \<^verbatim>\<open>nil\<close> are
  options, Go's \<^verbatim>\<open>(value, error)\<close> returns are sums with the error on the left, and
  every call to a collaborator (discovery, selector, local state, transports) is recorded
  in a trace carried by the state, so that "is invoked", "exactly once" and "after" are
  statements about that trace. The calls to the tracing span (\<^verbatim>\<open>LogObject\<close>,
  \<^verbatim>\<open>LogError\<close>, \<^verbatim>\<open>Finish\<close>) and to the logger only write diagnostics and are left out.
\<close>

subsection \<open>Messages of package registry and connection\<close>

text \<open>
  The message types are declared in generated code outside this file; the records keep the
  fields the operations read, and one opaque payload each. The generated getters are
  safe on \<^verbatim>\<open>nil\<close> and return the zero value there, which the getters below repeat.
\<close>

record NetworkService =
  ns_Name :: string
  ns_Payload :: string

record NetworkServiceManager =
  nsm_Name :: string
  nsm_Url :: string

record NetworkServiceEndpoint =
  nse_Name :: string
  nse_NetworkServiceName :: string
  nse_NetworkServiceManagerName :: string
  nse_Payload :: string

record NSERegistration =
  reg_NetworkService :: "NetworkService option"
  reg_NetworkServiceManager :: "NetworkServiceManager option"
  reg_NetworkServiceEndpoint :: "NetworkServiceEndpoint option"

record Connection =
  conn_NetworkService :: string
  conn_NetworkServiceEndpointName :: string
  conn_DestinationNetworkServiceManagerName :: string

record FindNetworkServiceRequest =
  req_NetworkServiceName :: string

record FindNetworkServiceResponse =
  resp_Payload :: string
  resp_NetworkService :: "NetworkService option"
  resp_NetworkServiceManagers :: "string \<rightharpoonup> NetworkServiceManager"
  resp_NetworkServiceEndpoints :: "NetworkServiceEndpoint list"

definition GetName_nsm :: "NetworkServiceManager option \<Rightarrow> string" where
  "GetName_nsm m = (case m of None \<Rightarrow> [] | Some x \<Rightarrow> nsm_Name x)"

definition GetName_nse :: "NetworkServiceEndpoint option \<Rightarrow> string" where
  "GetName_nse e = (case e of None \<Rightarrow> [] | Some x \<Rightarrow> nse_Name x)"

definition GetNetworkServiceManagerName :: "NetworkServiceEndpoint option \<Rightarrow> string" where
  "GetNetworkServiceManagerName e =
     (case e of None \<Rightarrow> [] | Some x \<Rightarrow> nse_NetworkServiceManagerName x)"

definition GetNetworkServiceEndpoint :: "NSERegistration \<Rightarrow> NetworkServiceEndpoint option" where
  "GetNetworkServiceEndpoint r = reg_NetworkServiceEndpoint r"

definition GetNetworkServiceManager :: "NSERegistration \<Rightarrow> NetworkServiceManager option" where
  "GetNetworkServiceManager r = reg_NetworkServiceManager r"

text \<open>
  Modelled from the spec: \<^verbatim>\<open>registry.EndpointNSMName\<close>, \<^verbatim>\<open>registry.NewEndpointNSMName\<close>
  and \<^verbatim>\<open>NSERegistration.GetEndpointNSMName\<close> are not in this file. The spec's
  EndpointIdentity is the pair of the endpoint's name and the name of its owning manager,
  compared structurally.
\<close>

type_synonym EndpointNSMName = "string \<times> string"

definition NewEndpointNSMName ::
  "NetworkServiceEndpoint option \<Rightarrow> NetworkServiceManager option \<Rightarrow> EndpointNSMName" where
  "NewEndpointNSMName endpoint manager = (GetName_nse endpoint, GetName_nsm manager)"

definition GetEndpointNSMName :: "NSERegistration \<Rightarrow> EndpointNSMName" where
  "GetEndpointNSMName nseReg =
     NewEndpointNSMName (GetNetworkServiceEndpoint nseReg) (GetNetworkServiceManager nseReg)"

text \<open>
  The exclusion set is a Go map from identities to registrations used as "already tried"
  markers. A lookup of a key the map does not hold gives \<^verbatim>\<open>nil\<close>, so the source's test
  \<^verbatim>\<open>ignoreEndpoints[k] == nil\<close> is \<open>fmlookup m k = None\<close>, and \<^verbatim>\<open>len\<close> counts the keys.
  The markers are registrations: the map of the model has no key that holds \<^verbatim>\<open>nil\<close>,
  which the source's test would read as an absent key.
\<close>

type_synonym ExclusionSet = "(EndpointNSMName, NSERegistration) fmap"

definition len_map :: "ExclusionSet \<Rightarrow> nat" where
  "len_map m = fcard (fmdom m)"

subsection \<open>Local state (package model)\<close>

record Endpoint =
  ep_Endpoint :: NSERegistration
  ep_SocketLocation :: string
  ep_Workspace :: string

text \<open>
  Modelled from the spec: \<^verbatim>\<open>model.Endpoint.EndpointName\<close> is not in this file; the
  name of a local endpoint is the name of the endpoint in its stored registration.
\<close>

definition EndpointName :: "Endpoint \<Rightarrow> string" where
  "EndpointName e = GetName_nse (GetNetworkServiceEndpoint (ep_Endpoint e))"

subsection \<open>Contexts, errors, clients and the trace of collaborator calls\<close>

text \<open>
  A context carries its deadline, here the time left in nanoseconds from the instant of
  the call (\<open>None\<close>: no deadline), and the names of the spans opened on it.
  \<^verbatim>\<open>context.WithTimeout\<close> keeps the earlier of the parent's deadline and the new one.
\<close>

record Context =
  ctx_deadline :: "int option"
  ctx_spans :: "string list"

definition WithTimeout :: "Context \<Rightarrow> int \<Rightarrow> Context" where
  "WithTimeout parent d =
     parent\<lparr>ctx_deadline := Some (case ctx_deadline parent of None \<Rightarrow> d | Some t \<Rightarrow> min t d)\<rparr>"

definition span_Context :: "Context \<Rightarrow> string \<Rightarrow> Context" where
  "span_Context ctx operation = ctx\<lparr>ctx_spans := operation # ctx_spans ctx\<rparr>"

text \<open>
  The errors this file builds with \<^verbatim>\<open>errors.Errorf\<close> keep their arguments:
  \<^item> \<open>LocalEndpointNotFound t\<close>: "Could not find endpoint with name: t at local registry";
  \<^item> \<open>TargetedNSENotFound t m s n\<close>: "failed to find targeted NSE t (NSMgr=m) for
    NetworkService s. Checked: n endpoints";
  \<^item> \<open>NSENotFound s i n\<close>: "failed to find NSE for NetworkService s. Checked: i of total
    NSEs: n";
  \<^item> \<open>EndpointNotFound r\<close>: "Endpoint not found: r".
  An error a collaborator made is opaque: \<open>CollaboratorError\<close>.
\<close>

datatype error =
    LocalEndpointNotFound string
  | TargetedNSENotFound string string string nat
  | NSENotFound string nat nat
  | EndpointNotFound NSERegistration
  | CollaboratorError string

fun NotFound :: "error \<Rightarrow> bool" where
  "NotFound (CollaboratorError _) = False"
| "NotFound _ = True"

type_synonym handle = nat

datatype NetworkServiceClient =
    endpointClient handle handle
  | nsmClient handle handle

datatype event =
    CallDiscoveryClient Context
  | CallFindNetworkService Context FindNetworkServiceRequest
  | CallSelectEndpoint Connection "NetworkService option" "NetworkServiceEndpoint list"
  | CallEndpointConnection Context Endpoint
  | CallDeleteEndpoint Context string
  | CallRemoteNetworkServiceClient Context "NetworkServiceManager option"
  | CallCleanup NetworkServiceClient
  | CallCancel Context

text \<open>
  The state: the local model (this node's manager and its endpoints by name), the Go heap
  as far as the operations reach it (the exclusion maps, by reference), and the trace.
\<close>

type_synonym mapref = nat

record world =
  model_nsm :: "NetworkServiceManager option"
  model_endpoints :: "string \<rightharpoonup> Endpoint"
  heap :: "mapref \<rightharpoonup> ExclusionSet"
  trace :: "event list"

definition emit :: "event \<Rightarrow> world \<Rightarrow> world" where
  "emit e w = w\<lparr>trace := trace w @ [e]\<rparr>"

text \<open>Reading through a reference; a \<^verbatim>\<open>nil\<close> map reads as the empty map.\<close>

definition deref :: "world \<Rightarrow> mapref \<Rightarrow> ExclusionSet" where
  "deref w r = (case heap w r of None \<Rightarrow> fmempty | Some m \<Rightarrow> m)"

definition model_GetNsm :: "world \<Rightarrow> NetworkServiceManager option" where
  "model_GetNsm w = model_nsm w"

definition model_GetEndpoint :: "world \<Rightarrow> string \<Rightarrow> Endpoint option" where
  "model_GetEndpoint w name = model_endpoints w name"

text \<open>
  Modelled from the spec: \<^verbatim>\<open>model.DeleteEndpoint\<close> is not in this file; it removes the
  endpoint's entry from local state, and removing an absent entry changes nothing.
\<close>

definition model_DeleteEndpoint :: "Context \<Rightarrow> string \<Rightarrow> world \<Rightarrow> world" where
  "model_DeleteEndpoint ctx name w =
     emit (CallDeleteEndpoint ctx name) (w\<lparr>model_endpoints := (model_endpoints w)(name := None)\<rparr>)"

text \<open>
  The collaborators and the configuration an \<^verbatim>\<open>nseManager\<close> holds. Each operation
  calls a collaborator at most once, so what the collaborator answers within one operation
  is a function of the arguments it is given. The transports return a client and a
  connection, or an error.
\<close>

type_synonym discoveryClient =
  "Context \<Rightarrow> FindNetworkServiceRequest \<Rightarrow> error + FindNetworkServiceResponse"

record nseManager =
  DiscoveryClient :: "Context \<Rightarrow> error + discoveryClient"
  EndpointConnection :: "Context \<Rightarrow> Endpoint \<Rightarrow> error + (handle \<times> handle)"
  RemoteNetworkServiceClient ::
    "Context \<Rightarrow> NetworkServiceManager option \<Rightarrow> error + (handle \<times> handle)"
  SelectEndpoint ::
    "Connection \<Rightarrow> NetworkService option \<Rightarrow> NetworkServiceEndpoint list
       \<Rightarrow> NetworkServiceEndpoint option"
  Cleanup :: "NetworkServiceClient \<Rightarrow> error option"
  HealRequestConnectTimeout :: int
  HealRequestConnectCheckTimeout :: int

subsection \<open>The two scans\<close>

fun filterEndpoints_loop ::
  "NetworkServiceEndpoint list \<Rightarrow> NetworkServiceEndpoint list
     \<Rightarrow> (string \<rightharpoonup> NetworkServiceManager) \<Rightarrow> ExclusionSet \<Rightarrow> NetworkServiceEndpoint list" where
  "filterEndpoints_loop result [] managers ignoreEndpoints = result"
| "filterEndpoints_loop result (candidate # endpoints) managers ignoreEndpoints =
     (let endpointName =
            NewEndpointNSMName (Some candidate)
              (managers (nse_NetworkServiceManagerName candidate))
      in if fmlookup ignoreEndpoints endpointName = None
         then filterEndpoints_loop (result @ [candidate]) endpoints managers ignoreEndpoints
         else filterEndpoints_loop result endpoints managers ignoreEndpoints)"

definition filterEndpoints ::
  "NetworkServiceEndpoint list \<Rightarrow> (string \<rightharpoonup> NetworkServiceManager) \<Rightarrow> ExclusionSet
     \<Rightarrow> NetworkServiceEndpoint list" where
  "filterEndpoints endpoints managers ignoreEndpoints =
     filterEndpoints_loop [] endpoints managers ignoreEndpoints"

fun getTargetEndpoint ::
  "NetworkServiceEndpoint list \<Rightarrow> string \<Rightarrow> string \<Rightarrow> NetworkServiceEndpoint option" where
  "getTargetEndpoint [] targetEndpoint targetNSManager = None"
| "getTargetEndpoint (candidate # endpoints) targetEndpoint targetNSManager =
     (if nse_Name candidate = targetEndpoint then Some candidate
      else getTargetEndpoint endpoints targetEndpoint targetNSManager)"

subsection \<open>Resolution\<close>

definition GetEndpoint ::
  "nseManager \<Rightarrow> Context \<Rightarrow> Connection \<Rightarrow> mapref \<Rightarrow> world
     \<Rightarrow> (error + NSERegistration) \<times> world" where
  "GetEndpoint nsem ctx requestConnection ignoreEndpoints w =
     (let targetEndpoint = conn_NetworkServiceEndpointName requestConnection;
          myNsemName = GetName_nsm (model_GetNsm w);
          targetNsemName = conn_DestinationNetworkServiceManagerName requestConnection
      in if length targetEndpoint > 0 \<and> length targetNsemName > 0 \<and> myNsemName = targetNsemName
         then
           (case model_GetEndpoint w targetEndpoint of
              None \<Rightarrow> (Inl (LocalEndpointNotFound targetEndpoint), w)
            | Some endpoint \<Rightarrow>
                if fmlookup (deref w ignoreEndpoints) (GetEndpointNSMName (ep_Endpoint endpoint)) = None
                then (Inr (ep_Endpoint endpoint), w)
                else (Inl (LocalEndpointNotFound targetEndpoint), w))
         else
           (let w1 = emit (CallDiscoveryClient ctx) w
            in case DiscoveryClient nsem ctx of
                 Inl err \<Rightarrow> (Inl err, w1)
               | Inr discoveryClient \<Rightarrow>
                   (let nseRequest = \<lparr>req_NetworkServiceName = conn_NetworkService requestConnection\<rparr>;
                        w2 = emit (CallFindNetworkService ctx nseRequest) w1
                    in case discoveryClient ctx nseRequest of
                         Inl err \<Rightarrow> (Inl err, w2)
                       | Inr endpointResponse \<Rightarrow>
                           (let bundle = (\<lambda>endpoint.
                                  \<lparr>reg_NetworkService = resp_NetworkService endpointResponse,
                                   reg_NetworkServiceManager =
                                     resp_NetworkServiceManagers endpointResponse
                                       (GetNetworkServiceManagerName (Some endpoint)),
                                   reg_NetworkServiceEndpoint = Some endpoint\<rparr>)
                            in if length targetEndpoint > 0
                               then
                                 (case getTargetEndpoint (resp_NetworkServiceEndpoints endpointResponse)
                                         targetEndpoint targetNsemName of
                                    None \<Rightarrow>
                                      (Inl (TargetedNSENotFound targetEndpoint targetNsemName
                                              (conn_NetworkService requestConnection)
                                              (length (resp_NetworkServiceEndpoints endpointResponse))),
                                       w2)
                                  | Some endpoint \<Rightarrow> (Inr (bundle endpoint), w2))
                               else
                                 (let endpoints =
                                        filterEndpoints (resp_NetworkServiceEndpoints endpointResponse)
                                          (resp_NetworkServiceManagers endpointResponse)
                                          (deref w2 ignoreEndpoints)
                                  in if length endpoints = 0
                                     then
                                       (Inl (NSENotFound (conn_NetworkService requestConnection)
                                               (len_map (deref w2 ignoreEndpoints)) (length endpoints)),
                                        w2)
                                     else
                                       (let w3 = emit (CallSelectEndpoint requestConnection
                                                         (resp_NetworkService endpointResponse) endpoints) w2
                                        in case SelectEndpoint nsem requestConnection
                                                  (resp_NetworkService endpointResponse) endpoints of
                                             None \<Rightarrow>
                                               (Inl (NSENotFound (conn_NetworkService requestConnection)
                                                       (len_map (deref w3 ignoreEndpoints))
                                                       (length endpoints)),
                                                w3)
                                           | Some endpoint \<Rightarrow> (Inr (bundle endpoint), w3)))))))"

subsection \<open>Establishment, probe and eviction\<close>

definition IsLocalEndpoint :: "world \<Rightarrow> NSERegistration \<Rightarrow> bool" where
  "IsLocalEndpoint w endpoint \<longleftrightarrow>
     GetName_nsm (model_GetNsm w)
       = GetNetworkServiceManagerName (GetNetworkServiceEndpoint endpoint)"

definition cleanupNSE :: "Context \<Rightarrow> Endpoint \<Rightarrow> world \<Rightarrow> world" where
  "cleanupNSE ctx endpoint w = model_DeleteEndpoint ctx (EndpointName endpoint) w"

definition CreateNSEClient ::
  "nseManager \<Rightarrow> Context \<Rightarrow> NSERegistration \<Rightarrow> world
     \<Rightarrow> (error + NetworkServiceClient) \<times> world" where
  "CreateNSEClient nsem ctx endpoint w =
     (let span_ctx = span_Context ctx ''createNSEClient''
      in if IsLocalEndpoint w endpoint
         then
           (case model_GetEndpoint w (GetName_nse (GetNetworkServiceEndpoint endpoint)) of
              None \<Rightarrow> (Inl (EndpointNotFound endpoint), w)
            | Some modelEp \<Rightarrow>
                (let w1 = emit (CallEndpointConnection span_ctx modelEp) w
                 in case EndpointConnection nsem span_ctx modelEp of
                      Inl err \<Rightarrow> (Inl err, cleanupNSE ctx modelEp w1)
                    | Inr (client, conn) \<Rightarrow> (Inr (endpointClient conn client), w1)))
         else
           (let ctx' = WithTimeout span_ctx (HealRequestConnectTimeout nsem);
                w1 = emit (CallRemoteNetworkServiceClient ctx' (GetNetworkServiceManager endpoint)) w;
                r = RemoteNetworkServiceClient nsem ctx' (GetNetworkServiceManager endpoint);
                w2 = emit (CallCancel ctx') w1
            in case r of
                 Inl err \<Rightarrow> (Inl err, w2)
               | Inr (client, conn) \<Rightarrow> (Inr (nsmClient client conn), w2)))"


section \<open>Reading a trace\<close>

text \<open>
  The calls an operation made are the events it appended to the trace; the functions below
  pick out of a list of events the calls to one collaborator, with their arguments.
\<close>

definition calls_made :: "world \<Rightarrow> world \<Rightarrow> event list" where
  "calls_made w w' = drop (length (trace w)) (trace w')"

fun discovery_calls :: "event list \<Rightarrow> event list" where
  "discovery_calls [] = []"
| "discovery_calls (CallDiscoveryClient c # t) = CallDiscoveryClient c # discovery_calls t"
| "discovery_calls (CallFindNetworkService c r # t) = CallFindNetworkService c r # discovery_calls t"
| "discovery_calls (_ # t) = discovery_calls t"

fun selector_inputs :: "event list \<Rightarrow> NetworkServiceEndpoint list list" where
  "selector_inputs [] = []"
| "selector_inputs (CallSelectEndpoint _ _ cs # t) = cs # selector_inputs t"
| "selector_inputs (_ # t) = selector_inputs t"

fun evictions :: "event list \<Rightarrow> string list" where
  "evictions [] = []"
| "evictions (CallDeleteEndpoint _ name # t) = name # evictions t"
| "evictions (_ # t) = evictions t"

fun local_opens :: "event list \<Rightarrow> (Context \<times> Endpoint) list" where
  "local_opens [] = []"
| "local_opens (CallEndpointConnection c e # t) = (c, e) # local_opens t"
| "local_opens (_ # t) = local_opens t"

fun remote_opens :: "event list \<Rightarrow> (Context \<times> NetworkServiceManager option) list" where
  "remote_opens [] = []"
| "remote_opens (CallRemoteNetworkServiceClient c m # t) = (c, m) # remote_opens t"
| "remote_opens (_ # t) = remote_opens t"

text \<open>
  What discovery answers to the query of \<open>GetEndpoint\<close> (lines 50 to 64 of the source):
  the client, then \<^verbatim>\<open>FindNetworkService\<close> for the requested service, the first error
  passed on.
\<close>

definition discovery ::
  "nseManager \<Rightarrow> Context \<Rightarrow> Connection \<Rightarrow> error + FindNetworkServiceResponse" where
  "discovery nsem ctx requestConnection =
     (case DiscoveryClient nsem ctx of
        Inl err \<Rightarrow> Inl err
      | Inr discoveryClient \<Rightarrow>
          discoveryClient ctx \<lparr>req_NetworkServiceName = conn_NetworkService requestConnection\<rparr>)"

text \<open>The pinned-local branch of \<open>GetEndpoint\<close> is taken under this test (lines 38 and 39).\<close>

definition pinned_local :: "world \<Rightarrow> Connection \<Rightarrow> bool" where
  "pinned_local w requestConnection \<longleftrightarrow>
     length (conn_NetworkServiceEndpointName requestConnection) > 0
     \<and> length (conn_DestinationNetworkServiceManagerName requestConnection) > 0
     \<and> GetName_nsm (model_GetNsm w) = conn_DestinationNetworkServiceManagerName requestConnection"

text \<open>A deadline no later than \<open>d\<close> from the instant of the call.\<close>

definition bounded_by :: "int \<Rightarrow> Context \<Rightarrow> bool" where
  "bounded_by d c \<longleftrightarrow> (case ctx_deadline c of None \<Rightarrow> False | Some t \<Rightarrow> t \<le> d)"

section \<open>A two-node mesh to run the operations on\<close>

text \<open>
  This node is \<open>nsm-1\<close> and hosts the endpoint \<open>nse-a\<close>; its peer \<open>nsm-2\<close> hosts
  \<open>nse-b\<close>. Discovery reports both endpoints, the selector takes the first candidate,
  and both transports and the release of a client fail.
\<close>

definition icmp_service :: NetworkService where
  "icmp_service = \<lparr>ns_Name = ''icmp'', ns_Payload = ''IP''\<rparr>"

definition self_nsm :: NetworkServiceManager where
  "self_nsm = \<lparr>nsm_Name = ''nsm-1'', nsm_Url = ''10.0.0.1:5001''\<rparr>"

definition peer_nsm :: NetworkServiceManager where
  "peer_nsm = \<lparr>nsm_Name = ''nsm-2'', nsm_Url = ''10.0.0.2:5001''\<rparr>"

definition nse_a :: NetworkServiceEndpoint where
  "nse_a = \<lparr>nse_Name = ''nse-a'', nse_NetworkServiceName = ''icmp'',
            nse_NetworkServiceManagerName = ''nsm-1'', nse_Payload = []\<rparr>"

definition nse_b :: NetworkServiceEndpoint where
  "nse_b = \<lparr>nse_Name = ''nse-b'', nse_NetworkServiceName = ''icmp'',
            nse_NetworkServiceManagerName = ''nsm-2'', nse_Payload = []\<rparr>"

definition reg_a :: NSERegistration where
  "reg_a = \<lparr>reg_NetworkService = Some icmp_service, reg_NetworkServiceManager = Some self_nsm,
            reg_NetworkServiceEndpoint = Some nse_a\<rparr>"

definition reg_b :: NSERegistration where
  "reg_b = \<lparr>reg_NetworkService = Some icmp_service, reg_NetworkServiceManager = Some peer_nsm,
            reg_NetworkServiceEndpoint = Some nse_b\<rparr>"

text \<open>A registration whose manager is this node while its endpoint names the peer as owner.\<close>

definition reg_mixed :: NSERegistration where
  "reg_mixed = \<lparr>reg_NetworkService = Some icmp_service, reg_NetworkServiceManager = Some self_nsm,
                reg_NetworkServiceEndpoint = Some nse_b\<rparr>"

definition ep_a :: Endpoint where
  "ep_a = \<lparr>ep_Endpoint = reg_a, ep_SocketLocation = ''nsm-1/nse-a.sock'', ep_Workspace = ''ws-a''\<rparr>"

definition response_ab :: FindNetworkServiceResponse where
  "response_ab =
     \<lparr>resp_Payload = ''IP'', resp_NetworkService = Some icmp_service,
      resp_NetworkServiceManagers = [''nsm-1'' \<mapsto> self_nsm, ''nsm-2'' \<mapsto> peer_nsm],
      resp_NetworkServiceEndpoints = [nse_a, nse_b]\<rparr>"

definition refused :: error where
  "refused = CollaboratorError ''connection refused''"

definition mesh :: nseManager where
  "mesh =
     \<lparr>DiscoveryClient = (\<lambda>ctx. Inr (\<lambda>ctx request. Inr response_ab)),
      EndpointConnection = (\<lambda>ctx endpoint. Inl refused),
      RemoteNetworkServiceClient = (\<lambda>ctx manager. Inl refused),
      SelectEndpoint = (\<lambda>request service candidates.
                          case candidates of [] \<Rightarrow> None | c # rest \<Rightarrow> Some c),
      Cleanup = (\<lambda>client. Some refused),
      HealRequestConnectTimeout = 15000000000,
      HealRequestConnectCheckTimeout = 1000000000\<rparr>"

text \<open>The same node with transports that connect.\<close>

definition mesh_up :: nseManager where
  "mesh_up = mesh\<lparr>EndpointConnection := (\<lambda>ctx endpoint. Inr (1, 2)),
                  RemoteNetworkServiceClient := (\<lambda>ctx manager. Inr (3, 4))\<rparr>"

definition background :: Context where
  "background = \<lparr>ctx_deadline = None, ctx_spans = []\<rparr>"

text \<open>The state of this node, with the caller's exclusion map at reference 0.\<close>

definition node :: "ExclusionSet \<Rightarrow> world" where
  "node tried =
     \<lparr>model_nsm = Some self_nsm, model_endpoints = [''nse-a'' \<mapsto> ep_a],
      heap = [0 \<mapsto> tried], trace = []\<rparr>"

definition tried_a :: ExclusionSet where
  "tried_a = fmupd (GetEndpointNSMName reg_a) reg_a fmempty"

definition tried_b :: ExclusionSet where
  "tried_b = fmupd (GetEndpointNSMName reg_b) reg_b fmempty"

definition tried_ab :: ExclusionSet where
  "tried_ab = fmupd (GetEndpointNSMName reg_b) reg_b tried_a"

definition request_open :: Connection where
  "request_open = \<lparr>conn_NetworkService = ''icmp'', conn_NetworkServiceEndpointName = [],
                   conn_DestinationNetworkServiceManagerName = []\<rparr>"

definition request_local_a :: Connection where
  "request_local_a = \<lparr>conn_NetworkService = ''icmp'', conn_NetworkServiceEndpointName = ''nse-a'',
                      conn_DestinationNetworkServiceManagerName = ''nsm-1''\<rparr>"

definition request_pinned_b :: Connection where
  "request_pinned_b = \<lparr>conn_NetworkService = ''icmp'', conn_NetworkServiceEndpointName = ''nse-b'',
                       conn_DestinationNetworkServiceManagerName = ''nsm-2''\<rparr>"

definition request_pinned_z :: Connection where
  "request_pinned_z = \<lparr>conn_NetworkService = ''icmp'', conn_NetworkServiceEndpointName = ''nse-z'',
                       conn_DestinationNetworkServiceManagerName = []\<rparr>"

lemmas mesh_defs =
  icmp_service_def self_nsm_def peer_nsm_def nse_a_def nse_b_def reg_a_def reg_b_def
  reg_mixed_def ep_a_def response_ab_def refused_def mesh_def mesh_up_def background_def
  node_def tried_a_def tried_b_def tried_ab_def request_open_def request_local_a_def request_pinned_b_def
  request_pinned_z_def

lemmas getter_defs =
  GetName_nsm_def GetName_nse_def GetNetworkServiceManagerName_def GetNetworkServiceEndpoint_def
  GetNetworkServiceManager_def NewEndpointNSMName_def GetEndpointNSMName_def EndpointName_def
  model_GetNsm_def model_GetEndpoint_def deref_def

section \<open>Properties of the scans\<close>

lemma filterEndpoints_loop_filter:
  "filterEndpoints_loop result endpoints managers ignoreEndpoints =
     result @ filter (\<lambda>c. fmlookup ignoreEndpoints
                  (NewEndpointNSMName (Some c) (managers (nse_NetworkServiceManagerName c))) = None)
                endpoints"
  by (induction endpoints arbitrary: result) (simp_all add: Let_def)

lemma filterEndpoints_filter:
  "filterEndpoints endpoints managers ignoreEndpoints =
     filter (\<lambda>c. fmlookup ignoreEndpoints
            (NewEndpointNSMName (Some c) (managers (nse_NetworkServiceManagerName c))) = None)
          endpoints"
  by (simp add: filterEndpoints_def filterEndpoints_loop_filter)

lemma filterEndpoints_not_excluded:
  "c \<in> set (filterEndpoints endpoints managers ignoreEndpoints) \<Longrightarrow>
     fmlookup ignoreEndpoints
       (NewEndpointNSMName (Some c) (managers (nse_NetworkServiceManagerName c))) = None"
  by (simp add: filterEndpoints_filter)

lemma getTargetEndpoint_first:
  assumes "endpoints = pre @ c # post" "\<forall>x \<in> set pre. nse_Name x \<noteq> t" "nse_Name c = t"
  shows "getTargetEndpoint endpoints t m = Some c"
  using assms by (induction pre arbitrary: endpoints) auto

lemma getTargetEndpoint_none:
  "(\<forall>x \<in> set endpoints. nse_Name x \<noteq> t) \<Longrightarrow> getTargetEndpoint endpoints t m = None"
  by (induction endpoints) auto

section \<open>Properties of traces, contexts and eviction\<close>

lemma emit_frame:
  "model_endpoints (emit e w) = model_endpoints w"
  "model_nsm (emit e w) = model_nsm w"
  "heap (emit e w) = heap w"
  "trace (emit e w) = trace w @ [e]"
  by (simp_all add: emit_def)

lemma deref_emit: "deref (emit e w) r = deref w r"
  by (simp add: deref_def emit_def)

lemma calls_made_self: "calls_made w w = []"
  by (simp add: calls_made_def)

lemma calls_made_emit1: "calls_made w (emit e w) = [e]"
  by (simp add: calls_made_def emit_def)

lemma calls_made_emit2: "calls_made w (emit e2 (emit e1 w)) = [e1, e2]"
  by (simp add: calls_made_def emit_def)

lemma calls_made_emit3: "calls_made w (emit e3 (emit e2 (emit e1 w))) = [e1, e2, e3]"
  by (simp add: calls_made_def emit_def)

lemma calls_made_cleanupNSE:
  "calls_made w (cleanupNSE ctx ep (emit e w)) = [e, CallDeleteEndpoint ctx (EndpointName ep)]"
  by (simp add: calls_made_def cleanupNSE_def model_DeleteEndpoint_def emit_def)

lemma model_endpoints_cleanupNSE:
  "model_endpoints (cleanupNSE ctx ep (emit e w)) = (model_endpoints w)(EndpointName ep := None)"
  by (simp add: cleanupNSE_def model_DeleteEndpoint_def emit_def)



lemma bounded_by_WithTimeout: "bounded_by d (WithTimeout c d)"
  by (simp add: bounded_by_def WithTimeout_def split: option.splits)



section \<open>Resolution\<close>

subsection \<open>The pinned-local branch\<close>

text \<open>
  Claim C1. When the request names a target endpoint and a target manager, and that manager
  name is this node's own, \<open>GetEndpoint\<close> answers from local state alone: the stored
  registration if the endpoint is there and the exclusion map holds no marker for its
  identity, and the error "Could not find endpoint ... at local registry" otherwise (the
  endpoint is absent, or excluded). The state is returned as it was, so no collaborator
  was called, the discovery client in particular.
\<close>

theorem GetEndpoint_pinned_local:
  assumes "conn_NetworkServiceEndpointName req \<noteq> []"
      and "conn_DestinationNetworkServiceManagerName req \<noteq> []"
      and "conn_DestinationNetworkServiceManagerName req = GetName_nsm (model_GetNsm w)"
  shows "(\<forall>endpoint. model_GetEndpoint w (conn_NetworkServiceEndpointName req) = Some endpoint
            \<and> fmlookup (deref w ign) (GetEndpointNSMName (ep_Endpoint endpoint)) = None
          \<longrightarrow> fst (GetEndpoint nsem ctx req ign w) = Inr (ep_Endpoint endpoint))
       \<and> ((\<forall>endpoint. model_GetEndpoint w (conn_NetworkServiceEndpointName req) = Some endpoint
             \<longrightarrow> fmlookup (deref w ign) (GetEndpointNSMName (ep_Endpoint endpoint)) \<noteq> None)
          \<longrightarrow> fst (GetEndpoint nsem ctx req ign w)
                = Inl (LocalEndpointNotFound (conn_NetworkServiceEndpointName req)))
       \<and> NotFound (LocalEndpointNotFound (conn_NetworkServiceEndpointName req))
       \<and> snd (GetEndpoint nsem ctx req ign w) = w
       \<and> discovery_calls (calls_made w (snd (GetEndpoint nsem ctx req ign w))) = []"
  using assms
  by (auto simp: GetEndpoint_def Let_def calls_made_def split: option.splits)

theorem GetEndpoint_pinned_local_witness:
  "fst (GetEndpoint mesh background request_local_a 0 (node fmempty)) = Inr reg_a
   \<and> fst (GetEndpoint mesh background request_local_a 0 (node tried_a))
       = Inl (LocalEndpointNotFound ''nse-a'')
   \<and> snd (GetEndpoint mesh background request_local_a 0 (node tried_a)) = node tried_a
   \<and> discovery_calls (calls_made (node tried_a)
        (snd (GetEndpoint mesh background request_local_a 0 (node tried_a)))) = []"
proof -
  have t: "conn_NetworkServiceEndpointName request_local_a \<noteq> []"
    and m: "conn_DestinationNetworkServiceManagerName request_local_a \<noteq> []"
    by (simp_all add: request_local_a_def)
  have s: "conn_DestinationNetworkServiceManagerName request_local_a
             = GetName_nsm (model_GetNsm (node tried))" for tried
    by (simp add: mesh_defs getter_defs)
  have g: "model_GetEndpoint (node tried) (conn_NetworkServiceEndpointName request_local_a)
             = Some ep_a" for tried
    by (simp add: request_local_a_def node_def model_GetEndpoint_def)
  have free: "fmlookup (deref (node fmempty) 0) (GetEndpointNSMName (ep_Endpoint ep_a)) = None"
    by (simp add: mesh_defs getter_defs)
  have excluded: "fmlookup (deref (node tried_a) 0) (GetEndpointNSMName (ep_Endpoint ep_a)) \<noteq> None"
    by (simp add: mesh_defs getter_defs)
  have hit: "fst (GetEndpoint mesh background request_local_a 0 (node fmempty)) = Inr reg_a"
    using GetEndpoint_pinned_local [OF t m s, of fmempty 0 mesh background] g free
    by (simp add: ep_a_def)
  note th = GetEndpoint_pinned_local [OF t m s, of tried_a 0 mesh background]
  have all: "\<forall>endpoint.
               model_GetEndpoint (node tried_a) (conn_NetworkServiceEndpointName request_local_a)
                 = Some endpoint
               \<longrightarrow> fmlookup (deref (node tried_a) 0) (GetEndpointNSMName (ep_Endpoint endpoint))
                     \<noteq> None"
    using excluded by (simp add: g)
  have n: "conn_NetworkServiceEndpointName request_local_a = ''nse-a''"
    by (simp add: request_local_a_def)
  have miss: "fst (GetEndpoint mesh background request_local_a 0 (node tried_a))
                = Inl (LocalEndpointNotFound ''nse-a'')"
    using mp [OF th [THEN conjunct2, THEN conjunct1] all] by (simp only: n)
  have same: "snd (GetEndpoint mesh background request_local_a 0 (node tried_a)) = node tried_a"
    by (rule th [THEN conjunct2, THEN conjunct2, THEN conjunct2, THEN conjunct1])
  have quiet: "discovery_calls (calls_made (node tried_a)
                   (snd (GetEndpoint mesh background request_local_a 0 (node tried_a)))) = []"
    by (rule th [THEN conjunct2, THEN conjunct2, THEN conjunct2, THEN conjunct2])
  show ?thesis
    by (intro conjI) (rule hit, rule miss, rule same, rule quiet)
qed

subsection \<open>Open selection\<close>

text \<open>
  Claim C2. When the request names no target endpoint, the only list \<open>GetEndpoint\<close>
  hands to the selector is the discovery result filtered by \<open>filterEndpoints\<close>, and no
  endpoint of that list has a marker in the exclusion map under its identity (its name with
  the manager the response reports for it). If the filtered list is empty the selector is
  not called and the result is a not-found error; if the selector returns nothing the
  result is a not-found error; if it returns an endpoint, that endpoint is the one
  returned. If discovery fails, its error is returned and the selector is not called.
\<close>

theorem GetEndpoint_open_selection:
  assumes "conn_NetworkServiceEndpointName req = []"
  shows "case discovery nsem ctx req of
           Inl err \<Rightarrow>
             fst (GetEndpoint nsem ctx req ign w) = Inl err
             \<and> selector_inputs (calls_made w (snd (GetEndpoint nsem ctx req ign w))) = []
         | Inr resp \<Rightarrow>
             (let candidates = filterEndpoints (resp_NetworkServiceEndpoints resp)
                                 (resp_NetworkServiceManagers resp) (deref w ign);
                  service = resp_NetworkService resp
              in (\<forall>c \<in> set candidates.
                    fmlookup (deref w ign)
                      (NewEndpointNSMName (Some c)
                         (resp_NetworkServiceManagers resp (nse_NetworkServiceManagerName c))) = None)
                 \<and> selector_inputs (calls_made w (snd (GetEndpoint nsem ctx req ign w)))
                     = (if candidates = [] then [] else [candidates])
                 \<and> (candidates = [] \<longrightarrow>
                      (\<exists>err. fst (GetEndpoint nsem ctx req ign w) = Inl err \<and> NotFound err))
                 \<and> (SelectEndpoint nsem req service candidates = None \<longrightarrow>
                      (\<exists>err. fst (GetEndpoint nsem ctx req ign w) = Inl err \<and> NotFound err))
                 \<and> (\<forall>chosen. candidates \<noteq> [] \<and> SelectEndpoint nsem req service candidates = Some chosen
                      \<longrightarrow> (\<exists>reg. fst (GetEndpoint nsem ctx req ign w) = Inr reg
                                  \<and> reg_NetworkServiceEndpoint reg = Some chosen)))"
proof (cases "discovery nsem ctx req")
  case (Inl err)
  then show ?thesis using assms
    by (auto simp: GetEndpoint_def discovery_def Let_def calls_made_emit1 calls_made_emit2
             split: sum.splits)
next
  case (Inr resp)
  have excl: "\<forall>c \<in> set (filterEndpoints (resp_NetworkServiceEndpoints resp)
                                 (resp_NetworkServiceManagers resp) (deref w ign)).
                    fmlookup (deref w ign)
                      (NewEndpointNSMName (Some c)
                         (resp_NetworkServiceManagers resp (nse_NetworkServiceManagerName c))) = None"
    using filterEndpoints_not_excluded by blast
  from Inr obtain dc where dc: "DiscoveryClient nsem ctx = Inr dc"
    and r: "dc ctx \<lparr>req_NetworkServiceName = conn_NetworkService req\<rparr> = Inr resp"
    by (auto simp: discovery_def split: sum.splits)
  show ?thesis using assms excl
    by (simp add: Inr Let_def)
       (auto simp: GetEndpoint_def dc r Let_def deref_emit calls_made_emit2 calls_made_emit3
             split: option.splits)
qed

theorem GetEndpoint_open_selection_witness:
  "conn_NetworkServiceEndpointName request_open = []
   \<and> selector_inputs (calls_made (node tried_a)
        (snd (GetEndpoint mesh background request_open 0 (node tried_a)))) = [ [nse_b] ]
   \<and> fmlookup (deref (node tried_a) 0)
        (NewEndpointNSMName (Some nse_b)
           (resp_NetworkServiceManagers response_ab (nse_NetworkServiceManagerName nse_b))) = None
   \<and> fst (GetEndpoint mesh background request_open 0 (node tried_a)) = Inr reg_b
   \<and> selector_inputs (calls_made (node tried_ab)
        (snd (GetEndpoint mesh background request_open 0 (node tried_ab)))) = []
   \<and> fst (GetEndpoint mesh background request_open 0 (node tried_ab))
       = Inl (NSENotFound ''icmp'' 2 0)"
proof -
  have d: "discovery mesh background request_open = Inr response_ab"
    by (simp add: discovery_def mesh_def)
  have fa: "filterEndpoints (resp_NetworkServiceEndpoints response_ab)
              (resp_NetworkServiceManagers response_ab) (deref (node tried_a) 0) = [nse_b]"
    by (simp add: filterEndpoints_def mesh_defs getter_defs Let_def)
  have fab: "filterEndpoints (resp_NetworkServiceEndpoints response_ab)
              (resp_NetworkServiceManagers response_ab) (deref (node tried_ab) 0) = []"
    by (simp add: filterEndpoints_def mesh_defs getter_defs Let_def)
  have t: "conn_NetworkServiceEndpointName request_open = []"
    by (simp add: request_open_def)
  have a: "selector_inputs (calls_made (node tried_a)
        (snd (GetEndpoint mesh background request_open 0 (node tried_a)))) = [ [nse_b] ]"
    using GetEndpoint_open_selection [OF t, of mesh background 0 "node tried_a"]
    by (simp add: d fa Let_def)
  have ab: "selector_inputs (calls_made (node tried_ab)
        (snd (GetEndpoint mesh background request_open 0 (node tried_ab)))) = []"
    using GetEndpoint_open_selection [OF t, of mesh background 0 "node tried_ab"]
    by (simp add: d fab Let_def)
  have ra: "fst (GetEndpoint mesh background request_open 0 (node tried_a)) = Inr reg_b"
    by (simp add: GetEndpoint_def filterEndpoints_def mesh_defs getter_defs Let_def emit_def)
  have rab: "fst (GetEndpoint mesh background request_open 0 (node tried_ab))
       = Inl (NSENotFound ''icmp'' 2 0)"
    by (simp add: GetEndpoint_def filterEndpoints_def mesh_defs getter_defs Let_def emit_def
          len_map_def fcard_finsert_if)
  have free: "fmlookup (deref (node tried_a) 0)
        (NewEndpointNSMName (Some nse_b)
           (resp_NetworkServiceManagers response_ab (nse_NetworkServiceManagerName nse_b))) = None"
    using GetEndpoint_open_selection [OF t, of mesh background 0 "node tried_a"]
    by (simp add: d fa Let_def)
  show ?thesis
    by (intro conjI) (rule t, rule a, rule free, rule ra, rule ab, rule rab)
qed

subsection \<open>The pinned-anywhere branch\<close>

lemma GetEndpoint_pinned_discovery:
  assumes "conn_NetworkServiceEndpointName req \<noteq> []" "\<not> pinned_local w req"
    and "discovery nsem ctx req = Inr resp"
  shows "fst (GetEndpoint nsem ctx req ign w) =
     (case getTargetEndpoint (resp_NetworkServiceEndpoints resp)
              (conn_NetworkServiceEndpointName req)
              (conn_DestinationNetworkServiceManagerName req) of
        None \<Rightarrow> Inl (TargetedNSENotFound (conn_NetworkServiceEndpointName req)
                       (conn_DestinationNetworkServiceManagerName req) (conn_NetworkService req)
                       (length (resp_NetworkServiceEndpoints resp)))
      | Some c \<Rightarrow> Inr \<lparr>reg_NetworkService = resp_NetworkService resp,
                       reg_NetworkServiceManager =
                         resp_NetworkServiceManagers resp (nse_NetworkServiceManagerName c),
                       reg_NetworkServiceEndpoint = Some c\<rparr>)"
proof -
  from assms(3) obtain dc where dc: "DiscoveryClient nsem ctx = Inr dc"
    and r: "dc ctx \<lparr>req_NetworkServiceName = conn_NetworkService req\<rparr> = Inr resp"
    by (auto simp: discovery_def split: sum.splits)
  show ?thesis using assms(1,2)
    by (auto simp: GetEndpoint_def pinned_local_def dc r Let_def GetNetworkServiceManagerName_def
             split: option.splits)
qed

lemma GetEndpoint_pinned_heap:
  assumes "conn_NetworkServiceEndpointName req \<noteq> []" "\<not> pinned_local w req"
  shows "fst (GetEndpoint nsem ctx req ign (w\<lparr>heap := h\<rparr>)) = fst (GetEndpoint nsem ctx req ign w)"
  using assms
  by (auto simp: GetEndpoint_def pinned_local_def Let_def model_GetNsm_def emit_def
           split: sum.splits option.splits)

text \<open>
  Claim C5. When the request names a target endpoint and the pinned-local branch is not
  taken, and discovery answers, \<open>GetEndpoint\<close> returns the first endpoint of the discovery
  result whose name is the target name, whatever its manager, together with the manager
  the response holds under that endpoint's owning-manager name and the response's service.
  If no endpoint of the result has that name, the error is "failed to find targeted NSE",
  carrying the number of endpoints of the result.
\<close>

theorem GetEndpoint_pinned_anywhere:
  assumes "conn_NetworkServiceEndpointName req \<noteq> []" and "\<not> pinned_local w req"
    and "discovery nsem ctx req = Inr resp"
  shows "(\<forall>pre c post.
            resp_NetworkServiceEndpoints resp = pre @ c # post
            \<and> (\<forall>x \<in> set pre. nse_Name x \<noteq> conn_NetworkServiceEndpointName req)
            \<and> nse_Name c = conn_NetworkServiceEndpointName req
            \<longrightarrow> fst (GetEndpoint nsem ctx req ign w)
                  = Inr \<lparr>reg_NetworkService = resp_NetworkService resp,
                         reg_NetworkServiceManager =
                           resp_NetworkServiceManagers resp (nse_NetworkServiceManagerName c),
                         reg_NetworkServiceEndpoint = Some c\<rparr>)
       \<and> ((\<forall>x \<in> set (resp_NetworkServiceEndpoints resp).
              nse_Name x \<noteq> conn_NetworkServiceEndpointName req)
            \<longrightarrow> fst (GetEndpoint nsem ctx req ign w)
                  = Inl (TargetedNSENotFound (conn_NetworkServiceEndpointName req)
                           (conn_DestinationNetworkServiceManagerName req)
                           (conn_NetworkService req)
                           (length (resp_NetworkServiceEndpoints resp)))
              \<and> NotFound (TargetedNSENotFound (conn_NetworkServiceEndpointName req)
                           (conn_DestinationNetworkServiceManagerName req)
                           (conn_NetworkService req)
                           (length (resp_NetworkServiceEndpoints resp))))"
  by (simp add: GetEndpoint_pinned_discovery [OF assms] getTargetEndpoint_first
        getTargetEndpoint_none)

theorem GetEndpoint_pinned_anywhere_witness:
  "\<not> pinned_local (node fmempty) request_pinned_b
   \<and> discovery mesh background request_pinned_b = Inr response_ab
   \<and> fst (GetEndpoint mesh background request_pinned_b 0 (node fmempty)) = Inr reg_b
   \<and> fst (GetEndpoint mesh background request_pinned_z 0 (node fmempty))
       = Inl (TargetedNSENotFound ''nse-z'' [] ''icmp'' 2)"
proof -
  have nb: "conn_NetworkServiceEndpointName request_pinned_b \<noteq> []"
    and nz: "conn_NetworkServiceEndpointName request_pinned_z \<noteq> []"
    by (simp_all add: mesh_defs)
  have pb: "\<not> pinned_local (node fmempty) request_pinned_b"
    and pz: "\<not> pinned_local (node fmempty) request_pinned_z"
    by (simp_all add: pinned_local_def mesh_defs getter_defs)
  have db: "discovery mesh background request_pinned_b = Inr response_ab"
    and dz: "discovery mesh background request_pinned_z = Inr response_ab"
    by (simp_all add: discovery_def mesh_def)
  note th = GetEndpoint_pinned_anywhere [OF nb pb db, of 0]
  have l: "resp_NetworkServiceEndpoints response_ab = [nse_a] @ nse_b # []"
    by (simp add: response_ab_def)
  have f: "\<forall>x \<in> set [nse_a]. nse_Name x \<noteq> conn_NetworkServiceEndpointName request_pinned_b"
    and c: "nse_Name nse_b = conn_NetworkServiceEndpointName request_pinned_b"
    by (simp_all add: mesh_defs)
  have b: "fst (GetEndpoint mesh background request_pinned_b 0 (node fmempty)) = Inr reg_b"
    using th [THEN conjunct1, rule_format, OF conjI [OF l conjI [OF f c]]]
    by (simp add: mesh_defs)
  note tz = GetEndpoint_pinned_anywhere [OF nz pz dz, of 0]
  have none: "\<forall>x \<in> set (resp_NetworkServiceEndpoints response_ab).
                nse_Name x \<noteq> conn_NetworkServiceEndpointName request_pinned_z"
    by (simp add: mesh_defs)
  have z: "fst (GetEndpoint mesh background request_pinned_z 0 (node fmempty))
       = Inl (TargetedNSENotFound ''nse-z'' [] ''icmp'' 2)"
    using mp [OF tz [THEN conjunct2] none]
    by (simp add: mesh_defs)
  show ?thesis
    by (intro conjI) (rule pb, rule db, rule b, rule z)
qed

text \<open>
  Claim C10. In that branch the exclusion map plays no part: with a target endpoint named
  and the pinned-local branch not taken, the result of \<open>GetEndpoint\<close> is the same whatever
  the heap holds, and the first endpoint of the discovery result with the target name is
  returned also when the exclusion map holds a marker under its identity.
\<close>

theorem GetEndpoint_pinned_ignores_exclusions:
  assumes "conn_NetworkServiceEndpointName req \<noteq> []" and "\<not> pinned_local w req"
  shows "fst (GetEndpoint nsem ctx req ign (w\<lparr>heap := h\<rparr>)) = fst (GetEndpoint nsem ctx req ign w)
       \<and> (\<forall>resp pre c post marker.
            discovery nsem ctx req = Inr resp
            \<and> resp_NetworkServiceEndpoints resp = pre @ c # post
            \<and> (\<forall>x \<in> set pre. nse_Name x \<noteq> conn_NetworkServiceEndpointName req)
            \<and> nse_Name c = conn_NetworkServiceEndpointName req
            \<and> fmlookup (deref w ign)
                (NewEndpointNSMName (Some c)
                   (resp_NetworkServiceManagers resp (nse_NetworkServiceManagerName c)))
                = Some marker
            \<longrightarrow> (\<exists>reg. fst (GetEndpoint nsem ctx req ign w) = Inr reg
                       \<and> reg_NetworkServiceEndpoint reg = Some c))"
  using assms
  by (auto simp: GetEndpoint_pinned_heap GetEndpoint_pinned_discovery getTargetEndpoint_first)

theorem GetEndpoint_pinned_ignores_exclusions_witness:
  "\<not> pinned_local (node tried_b) request_pinned_b
   \<and> fmlookup (deref (node tried_b) 0)
       (NewEndpointNSMName (Some nse_b)
          (resp_NetworkServiceManagers response_ab (nse_NetworkServiceManagerName nse_b)))
       = Some reg_b
   \<and> (\<exists>reg. fst (GetEndpoint mesh background request_pinned_b 0 (node tried_b)) = Inr reg
            \<and> reg_NetworkServiceEndpoint reg = Some nse_b)"
proof -
  have n: "conn_NetworkServiceEndpointName request_pinned_b \<noteq> []"
    by (simp add: mesh_defs)
  have p: "\<not> pinned_local (node tried_b) request_pinned_b"
    by (simp add: pinned_local_def mesh_defs getter_defs)
  have d: "discovery mesh background request_pinned_b = Inr response_ab"
    by (simp add: discovery_def mesh_def)
  have l: "resp_NetworkServiceEndpoints response_ab = [nse_a] @ nse_b # []"
    by (simp add: response_ab_def)
  have f: "\<forall>x \<in> set [nse_a]. nse_Name x \<noteq> conn_NetworkServiceEndpointName request_pinned_b"
    and c: "nse_Name nse_b = conn_NetworkServiceEndpointName request_pinned_b"
    by (simp_all add: mesh_defs)
  have m: "fmlookup (deref (node tried_b) 0)
       (NewEndpointNSMName (Some nse_b)
          (resp_NetworkServiceManagers response_ab (nse_NetworkServiceManagerName nse_b)))
       = Some reg_b"
    by (simp add: mesh_defs getter_defs)
  show ?thesis
    using GetEndpoint_pinned_ignores_exclusions [OF n p, of mesh background 0 "heap (node tried_b)"]
      p d l f c m
    by blast
qed

subsection \<open>The manager of a registration made from discovery, and the exclusion map\<close>

text \<open>
  Claim C8. When \<open>GetEndpoint\<close> succeeds outside the pinned-local branch, discovery has
  answered in this call, and the manager of the returned registration is what that
  response's manager map holds under the owning-manager name of the returned endpoint.
\<close>

theorem GetEndpoint_manager_from_discovery:
  assumes "\<not> pinned_local w req" and "fst (GetEndpoint nsem ctx req ign w) = Inr reg"
  shows "\<exists>resp. discovery nsem ctx req = Inr resp
           \<and> reg_NetworkServiceManager reg
               = resp_NetworkServiceManagers resp
                   (GetNetworkServiceManagerName (reg_NetworkServiceEndpoint reg))"
  using assms
  by (auto simp: GetEndpoint_def pinned_local_def discovery_def Let_def
           split: sum.splits option.splits if_splits)

theorem GetEndpoint_manager_from_discovery_witness:
  "\<not> pinned_local (node fmempty) request_open
   \<and> fst (GetEndpoint mesh background request_open 0 (node fmempty)) = Inr reg_a
   \<and> (\<exists>resp. discovery mesh background request_open = Inr resp
         \<and> reg_NetworkServiceManager reg_a
             = resp_NetworkServiceManagers resp
                 (GetNetworkServiceManagerName (reg_NetworkServiceEndpoint reg_a)))"
proof -
  have p: "\<not> pinned_local (node fmempty) request_open"
    by (simp add: pinned_local_def mesh_defs)
  have r: "fst (GetEndpoint mesh background request_open 0 (node fmempty)) = Inr reg_a"
    by (simp add: GetEndpoint_def filterEndpoints_def mesh_defs getter_defs Let_def emit_def)
  show ?thesis
    using GetEndpoint_manager_from_discovery [OF p r] p r by simp
qed

text \<open>
  Claim C9. \<open>GetEndpoint\<close> leaves the heap as it found it, for every request and every
  content of the exclusion map: the map its argument refers to reads the same after the
  call as before.
\<close>

theorem GetEndpoint_exclusions_unchanged:
  "heap (snd (GetEndpoint nsem ctx req ign w)) = heap w
   \<and> deref (snd (GetEndpoint nsem ctx req ign w)) ign = deref w ign"
  by (auto simp: GetEndpoint_def Let_def emit_def deref_def split: sum.splits option.splits)

text \<open>The same on the two-node mesh: the map at reference 0 reads the same after a resolution.\<close>

theorem GetEndpoint_exclusions_unchanged_witness:
  "deref (snd (GetEndpoint mesh background request_open 0 (node tried_a))) 0 = tried_a"
  using GetEndpoint_exclusions_unchanged [where nsem = mesh and ctx = background
          and req = request_open and ign = 0 and w = "node tried_a"]
  by (simp add: deref_def node_def)

section \<open>Establishment\<close>

text \<open>The two paths of \<open>CreateNSEClient\<close>, each under its test.\<close>

lemma CreateNSEClient_remote:
  assumes "\<not> IsLocalEndpoint w reg"
  shows "CreateNSEClient nsem ctx reg w =
     (let ctx' = WithTimeout (span_Context ctx ''createNSEClient'') (HealRequestConnectTimeout nsem);
          manager = GetNetworkServiceManager reg
      in (case RemoteNetworkServiceClient nsem ctx' manager of
            Inl err \<Rightarrow> Inl err
          | Inr (client, conn) \<Rightarrow> Inr (nsmClient client conn),
          emit (CallCancel ctx') (emit (CallRemoteNetworkServiceClient ctx' manager) w)))"
  using assms by (auto simp: CreateNSEClient_def Let_def split: sum.splits)

lemma CreateNSEClient_local:
  assumes "IsLocalEndpoint w reg"
  shows "CreateNSEClient nsem ctx reg w =
     (case model_GetEndpoint w (GetName_nse (GetNetworkServiceEndpoint reg)) of
        None \<Rightarrow> (Inl (EndpointNotFound reg), w)
      | Some modelEp \<Rightarrow>
          (case EndpointConnection nsem (span_Context ctx ''createNSEClient'') modelEp of
             Inl err \<Rightarrow> (Inl err, cleanupNSE ctx modelEp
                            (emit (CallEndpointConnection (span_Context ctx ''createNSEClient'') modelEp) w))
           | Inr (client, conn) \<Rightarrow> (Inr (endpointClient conn client),
                            emit (CallEndpointConnection (span_Context ctx ''createNSEClient'') modelEp) w)))"
  using assms by (auto simp: CreateNSEClient_def Let_def split: sum.splits option.splits)

subsection \<open>Which path is taken\<close>

text \<open>
  Claim C3, as stated, reads the locality test as a comparison of this node's manager name
  with the name of the manager embedded in the registration. \<open>IsLocalEndpoint\<close> compares
  it with the owning-manager name written in the embedded endpoint instead, and the two
  can differ: for \<open>reg_mixed\<close> the embedded manager is this node, yet the remote
  transport is opened and the local one is not.
\<close>

theorem CreateNSEClient_manager_name_counterexample:
  "GetName_nsm (GetNetworkServiceManager reg_mixed) = GetName_nsm (model_GetNsm (node fmempty))
   \<and> local_opens (calls_made (node fmempty)
         (snd (CreateNSEClient mesh background reg_mixed (node fmempty)))) = []
   \<and> remote_opens (calls_made (node fmempty)
         (snd (CreateNSEClient mesh background reg_mixed (node fmempty))))
       = [(WithTimeout (span_Context background ''createNSEClient'') 15000000000, Some self_nsm)]"
  by (simp add: CreateNSEClient_def IsLocalEndpoint_def mesh_defs getter_defs Let_def
        calls_made_def emit_def)

text \<open>
  Claim C3, amended. \<open>CreateNSEClient\<close> takes the local path exactly when this node's
  manager name equals the owning-manager name of the registration's endpoint: then the
  remote transport is not opened, and the local transport is opened on the endpoint local
  state holds under the registration's endpoint name, if there is one. Otherwise the local
  transport is not opened and the remote transport is opened once, for the registration's
  manager, under a context whose deadline is at most \<open>HealRequestConnectTimeout\<close>.
\<close>

theorem CreateNSEClient_locality:
  "(GetName_nsm (model_GetNsm w) = GetNetworkServiceManagerName (GetNetworkServiceEndpoint reg)
      \<longrightarrow> remote_opens (calls_made w (snd (CreateNSEClient nsem ctx reg w))) = []
          \<and> local_opens (calls_made w (snd (CreateNSEClient nsem ctx reg w)))
              = (case model_GetEndpoint w (GetName_nse (GetNetworkServiceEndpoint reg)) of
                   None \<Rightarrow> []
                 | Some modelEp \<Rightarrow> [(span_Context ctx ''createNSEClient'', modelEp)]))
   \<and> (GetName_nsm (model_GetNsm w) \<noteq> GetNetworkServiceManagerName (GetNetworkServiceEndpoint reg)
      \<longrightarrow> local_opens (calls_made w (snd (CreateNSEClient nsem ctx reg w))) = []
          \<and> remote_opens (calls_made w (snd (CreateNSEClient nsem ctx reg w)))
              = [(WithTimeout (span_Context ctx ''createNSEClient'') (HealRequestConnectTimeout nsem),
                  GetNetworkServiceManager reg)]
          \<and> bounded_by (HealRequestConnectTimeout nsem)
              (WithTimeout (span_Context ctx ''createNSEClient'') (HealRequestConnectTimeout nsem)))"
proof (cases "IsLocalEndpoint w reg")
  case True
  then show ?thesis
    by (auto simp: CreateNSEClient_local IsLocalEndpoint_def calls_made_self calls_made_emit1
          calls_made_cleanupNSE split: option.splits sum.splits)
next
  case False
  then show ?thesis
    by (auto simp: CreateNSEClient_remote IsLocalEndpoint_def Let_def calls_made_emit2
          bounded_by_WithTimeout)
qed

theorem CreateNSEClient_locality_witness:
  "local_opens (calls_made (node fmempty)
       (snd (CreateNSEClient mesh background reg_a (node fmempty))))
     = [(span_Context background ''createNSEClient'', ep_a)]
   \<and> remote_opens (calls_made (node fmempty)
       (snd (CreateNSEClient mesh background reg_a (node fmempty)))) = []
   \<and> remote_opens (calls_made (node fmempty)
       (snd (CreateNSEClient mesh background reg_b (node fmempty))))
     = [(WithTimeout (span_Context background ''createNSEClient'') 15000000000, Some peer_nsm)]
   \<and> local_opens (calls_made (node fmempty)
       (snd (CreateNSEClient mesh background reg_b (node fmempty)))) = []"
proof -
  have la: "GetName_nsm (model_GetNsm (node fmempty))
              = GetNetworkServiceManagerName (GetNetworkServiceEndpoint reg_a)"
    by (simp add: mesh_defs getter_defs)
  have rb: "GetName_nsm (model_GetNsm (node fmempty))
              \<noteq> GetNetworkServiceManagerName (GetNetworkServiceEndpoint reg_b)"
    by (simp add: mesh_defs getter_defs)
  have ga: "model_GetEndpoint (node fmempty) (GetName_nse (GetNetworkServiceEndpoint reg_a))
              = Some ep_a"
    by (simp add: mesh_defs getter_defs)
  note a = mp [OF CreateNSEClient_locality [where nsem = mesh and ctx = background,
                     THEN conjunct1] la]
  note b = mp [OF CreateNSEClient_locality [where nsem = mesh and ctx = background,
                     THEN conjunct2] rb]
  have a1: "local_opens (calls_made (node fmempty)
       (snd (CreateNSEClient mesh background reg_a (node fmempty))))
     = [(span_Context background ''createNSEClient'', ep_a)]"
    using a [THEN conjunct2] by (simp add: ga)
  have b1: "remote_opens (calls_made (node fmempty)
       (snd (CreateNSEClient mesh background reg_b (node fmempty))))
     = [(WithTimeout (span_Context background ''createNSEClient'') 15000000000, Some peer_nsm)]"
    using b [THEN conjunct2, THEN conjunct1]
    by (simp add: mesh_def reg_b_def GetNetworkServiceManager_def)
  show ?thesis
    by (intro conjI) (rule a1, rule a [THEN conjunct1], rule b1, rule b [THEN conjunct1])
qed

subsection \<open>Failure on the local path\<close>

text \<open>
  Claim C4. On the local path, when local state holds the endpoint and the local transport
  fails to connect, \<open>CreateNSEClient\<close> returns the transport's error as it is, has called
  \<open>DeleteEndpoint\<close> exactly once, with that endpoint's name, and local state has lost the
  entry of that name. When local state does not hold the endpoint, the result is the error
  "Endpoint not found", the state is unchanged and nothing was evicted.
\<close>

theorem CreateNSEClient_local_failure:
  assumes "IsLocalEndpoint w reg"
  shows "(\<forall>modelEp err.
            model_GetEndpoint w (GetName_nse (GetNetworkServiceEndpoint reg)) = Some modelEp
            \<and> EndpointConnection nsem (span_Context ctx ''createNSEClient'') modelEp = Inl err
            \<longrightarrow> fst (CreateNSEClient nsem ctx reg w) = Inl err
                \<and> evictions (calls_made w (snd (CreateNSEClient nsem ctx reg w)))
                    = [EndpointName modelEp]
                \<and> model_endpoints (snd (CreateNSEClient nsem ctx reg w))
                    = (model_endpoints w)(EndpointName modelEp := None))
       \<and> (model_GetEndpoint w (GetName_nse (GetNetworkServiceEndpoint reg)) = None
            \<longrightarrow> fst (CreateNSEClient nsem ctx reg w) = Inl (EndpointNotFound reg)
                \<and> NotFound (EndpointNotFound reg)
                \<and> snd (CreateNSEClient nsem ctx reg w) = w
                \<and> evictions (calls_made w (snd (CreateNSEClient nsem ctx reg w))) = [])"
  by (auto simp: CreateNSEClient_local [OF assms] calls_made_self calls_made_cleanupNSE
        model_endpoints_cleanupNSE)

theorem CreateNSEClient_local_failure_witness:
  "IsLocalEndpoint (node fmempty) reg_a
   \<and> fst (CreateNSEClient mesh background reg_a (node fmempty)) = Inl refused
   \<and> evictions (calls_made (node fmempty)
        (snd (CreateNSEClient mesh background reg_a (node fmempty)))) = [''nse-a'']
   \<and> model_GetEndpoint (snd (CreateNSEClient mesh background reg_a (node fmempty))) ''nse-a'' = None"
proof -
  have l: "IsLocalEndpoint (node fmempty) reg_a"
    by (simp add: IsLocalEndpoint_def mesh_defs getter_defs)
  have g: "model_GetEndpoint (node fmempty) (GetName_nse (GetNetworkServiceEndpoint reg_a))
             = Some ep_a"
    by (simp add: mesh_defs getter_defs)
  have e: "EndpointConnection mesh (span_Context background ''createNSEClient'') ep_a = Inl refused"
    by (simp add: mesh_def)
  have n: "EndpointName ep_a = ''nse-a''"
    by (simp add: mesh_defs getter_defs)
  note th = CreateNSEClient_local_failure [where nsem = mesh and ctx = background, OF l,
              THEN conjunct1, rule_format, OF conjI [OF g e]]
  have r: "fst (CreateNSEClient mesh background reg_a (node fmempty)) = Inl refused"
    by (rule th [THEN conjunct1])
  have v: "evictions (calls_made (node fmempty)
        (snd (CreateNSEClient mesh background reg_a (node fmempty)))) = [''nse-a'']"
    using th [THEN conjunct2, THEN conjunct1] by (simp only: n)
  have d: "model_GetEndpoint (snd (CreateNSEClient mesh background reg_a (node fmempty))) ''nse-a''
             = None"
    using th [THEN conjunct2, THEN conjunct2] by (simp add: n model_GetEndpoint_def)
  show ?thesis
    by (intro conjI) (rule l, rule r, rule v, rule d)
qed

subsection \<open>The remote path\<close>

text \<open>
  Claim C7. On the remote path \<open>CreateNSEClient\<close> makes two calls, in this order: the
  remote transport, under a context derived with \<open>HealRequestConnectTimeout\<close> (so its
  deadline is at most that duration), and then the release of that context. An error of
  the transport is returned as it is, nothing is evicted, and local state, this node's
  manager and the heap are what they were.
\<close>

theorem CreateNSEClient_remote_path:
  assumes "\<not> IsLocalEndpoint w reg"
  shows "(let ctx' = WithTimeout (span_Context ctx ''createNSEClient'') (HealRequestConnectTimeout nsem);
              manager = GetNetworkServiceManager reg
          in bounded_by (HealRequestConnectTimeout nsem) ctx'
             \<and> calls_made w (snd (CreateNSEClient nsem ctx reg w))
                 = [CallRemoteNetworkServiceClient ctx' manager, CallCancel ctx']
             \<and> (\<forall>err. RemoteNetworkServiceClient nsem ctx' manager = Inl err
                   \<longrightarrow> fst (CreateNSEClient nsem ctx reg w) = Inl err)
             \<and> evictions (calls_made w (snd (CreateNSEClient nsem ctx reg w))) = []
             \<and> model_endpoints (snd (CreateNSEClient nsem ctx reg w)) = model_endpoints w
             \<and> model_nsm (snd (CreateNSEClient nsem ctx reg w)) = model_nsm w
             \<and> heap (snd (CreateNSEClient nsem ctx reg w)) = heap w)"
  by (simp add: CreateNSEClient_remote [OF assms] Let_def calls_made_emit2 bounded_by_WithTimeout
        emit_frame)

theorem CreateNSEClient_remote_path_witness:
  "\<not> IsLocalEndpoint (node fmempty) reg_b
   \<and> calls_made (node fmempty) (snd (CreateNSEClient mesh background reg_b (node fmempty)))
       = [CallRemoteNetworkServiceClient
            (WithTimeout (span_Context background ''createNSEClient'') 15000000000) (Some peer_nsm),
          CallCancel (WithTimeout (span_Context background ''createNSEClient'') 15000000000)]
   \<and> fst (CreateNSEClient mesh background reg_b (node fmempty)) = Inl refused
   \<and> model_endpoints (snd (CreateNSEClient mesh background reg_b (node fmempty)))
       = model_endpoints (node fmempty)"
proof -
  have r: "\<not> IsLocalEndpoint (node fmempty) reg_b"
    by (simp add: IsLocalEndpoint_def mesh_defs getter_defs)
  have t: "HealRequestConnectTimeout mesh = 15000000000"
    and m: "GetNetworkServiceManager reg_b = Some peer_nsm"
    by (simp_all add: mesh_def reg_b_def GetNetworkServiceManager_def)
  have e: "RemoteNetworkServiceClient mesh c (Some peer_nsm) = Inl refused" for c
    by (simp add: mesh_def)
  note th = CreateNSEClient_remote_path [where nsem = mesh and ctx = background, OF r,
              unfolded Let_def t m]
  have c: "calls_made (node fmempty) (snd (CreateNSEClient mesh background reg_b (node fmempty)))
       = [CallRemoteNetworkServiceClient
            (WithTimeout (span_Context background ''createNSEClient'') 15000000000) (Some peer_nsm),
          CallCancel (WithTimeout (span_Context background ''createNSEClient'') 15000000000)]"
    by (rule th [THEN conjunct2, THEN conjunct1])
  have f: "fst (CreateNSEClient mesh background reg_b (node fmempty)) = Inl refused"
    by (rule th [THEN conjunct2, THEN conjunct2, THEN conjunct1, rule_format, OF e])
  have s: "model_endpoints (snd (CreateNSEClient mesh background reg_b (node fmempty)))
       = model_endpoints (node fmempty)"
    by (rule th [THEN conjunct2, THEN conjunct2, THEN conjunct2, THEN conjunct2, THEN conjunct1])
  show ?thesis
    by (intro conjI) (rule r, rule c, rule f, rule s)
qed

section \<open>The probe\<close>








end
